theory Spec2Isabelle
  imports Main "HOL-Library.Word"
begin

section \<open>Strings of the host language\<close>

text \<open>
  A JavaScript string is a sequence of 16-bit code units; \<open>length\<close> counts code units,
  as \<^verbatim>\<open>String.prototype.length\<close> does. String literals of the source are ASCII and are
  written through \<open>ascii\<close>.
\<close>

type_synonym ustring = "16 word list"

definition ascii :: "string \<Rightarrow> ustring" where
  "ascii s = map (\<lambda>c. of_nat (of_char c)) s"

text \<open>
  \<^verbatim>\<open>String.prototype.trim\<close> removes leading and trailing WhiteSpace and LineTerminator
  code points (ECMA-262): TAB, LF, VT, FF, CR, SP, NBSP, U+1680, U+2000..U+200A, U+2028,
  U+2029, U+202F, U+205F, U+3000 and U+FEFF. All of them are single code units.
\<close>

definition is_white_space :: "16 word \<Rightarrow> bool" where
  "is_white_space c \<longleftrightarrow>
     c = 0x9 \<or> c = 0xA \<or> c = 0xB \<or> c = 0xC \<or> c = 0xD \<or> c = 0x20 \<or> c = 0xA0 \<or>
     c = 0x1680 \<or> (0x2000 \<le> c \<and> c \<le> 0x200A) \<or> c = 0x2028 \<or> c = 0x2029 \<or>
     c = 0x202F \<or> c = 0x205F \<or> c = 0x3000 \<or> c = 0xFEFF"

definition trim :: "ustring \<Rightarrow> ustring" where
  "trim s = rev (dropWhile is_white_space (rev (dropWhile is_white_space s)))"

text \<open>
  Number-to-string conversion of a non-negative integer below \<open>10 ^ 21\<close> is its decimal
  numeral. It is used on \<^verbatim>\<open>res.status\<close>, an unsigned 16-bit value.
\<close>

function decimal :: "nat \<Rightarrow> ustring" where
  "decimal n =
     (if n < 10 then [0x30 + of_nat n] else decimal (n div 10) @ [0x30 + of_nat (n mod 10)])"
  by pat_completeness auto
termination
  by (relation "measure (\<lambda>n. n)") auto

declare decimal.simps [simp del]

section \<open>JSON values and \<^verbatim>\<open>JSON.stringify\<close>\<close>

text \<open>
  The value \<^verbatim>\<open>res.json()\<close> resolves to. A number is a double; the handler only tests it
  for truthiness and prints it, so it is represented by its Number-to-string rendering
  (which determines the double up to the sign of zero; both zeros print as \<^verbatim>\<open>0\<close>). An object
  is the list of its own properties in enumeration order, every key once.
\<close>

datatype json =
    JNull
  | JBool bool
  | JNum ustring
  | JStr ustring
  | JArr "json list"
  | JObj "(ustring \<times> json) list"

fun join :: "ustring \<Rightarrow> ustring list \<Rightarrow> ustring" where
  "join sep [] = []"
| "join sep [x] = x"
| "join sep (x # y # ys) = x @ sep @ join sep (y # ys)"

definition hex_digit :: "nat \<Rightarrow> 16 word" where
  "hex_digit n = (if n < 10 then 0x30 + of_nat n else 0x61 + of_nat (n - 10))"

definition unicode_escape :: "16 word \<Rightarrow> ustring" where
  "unicode_escape c =
     [0x5C, 0x75] @ map hex_digit
        [unat c div 4096 mod 16, unat c div 256 mod 16, unat c div 16 mod 16, unat c mod 16]"

definition is_leading_surrogate :: "16 word \<Rightarrow> bool" where
  "is_leading_surrogate c \<longleftrightarrow> 0xD800 \<le> c \<and> c \<le> 0xDBFF"

definition is_trailing_surrogate :: "16 word \<Rightarrow> bool" where
  "is_trailing_surrogate c \<longleftrightarrow> 0xDC00 \<le> c \<and> c \<le> 0xDFFF"

text \<open>
  QuoteJSONString (ECMA-262, 25.5.2.3) walks the code points of the string: the seven
  characters of its table get their two-character escape, other control characters and
  unpaired surrogates get \<^verbatim>\<open>\uXXXX\<close>, everything else (a surrogate pair too) is copied.
\<close>

fun quote_units :: "ustring \<Rightarrow> ustring" where
  "quote_units [] = []"
| "quote_units (c # cs) =
     (if c = 0x8 then [0x5C, 0x62] @ quote_units cs
      else if c = 0x9 then [0x5C, 0x74] @ quote_units cs
      else if c = 0xA then [0x5C, 0x6E] @ quote_units cs
      else if c = 0xC then [0x5C, 0x66] @ quote_units cs
      else if c = 0xD then [0x5C, 0x72] @ quote_units cs
      else if c = 0x22 then [0x5C, 0x22] @ quote_units cs
      else if c = 0x5C then [0x5C, 0x5C] @ quote_units cs
      else if c < 0x20 then unicode_escape c @ quote_units cs
      else if is_leading_surrogate c then
        (case cs of
           [] \<Rightarrow> unicode_escape c
         | d # ds \<Rightarrow>
             if is_trailing_surrogate d then c # d # quote_units ds
             else unicode_escape c @ quote_units cs)
      else if is_trailing_surrogate c then unicode_escape c @ quote_units cs
      else c # quote_units cs)"

definition QuoteJSONString :: "ustring \<Rightarrow> ustring" where
  "QuoteJSONString s = [0x22] @ quote_units s @ [0x22]"

text \<open>
  SerializeJSONProperty with SerializeJSONObject and SerializeJSONArray (ECMA-262,
  25.5.2.2, .5 and .6) for a value that came out of \<^verbatim>\<open>JSON.parse\<close> or an object literal
  of strings: no \<^verbatim>\<open>toJSON\<close>, no replacer, no \<^verbatim>\<open>undefined\<close>. \<open>gap\<close> is the
  indentation unit and \<open>indent\<close> the current indentation.
\<close>

fun SerializeJSONProperty :: "ustring \<Rightarrow> ustring \<Rightarrow> json \<Rightarrow> ustring" where
  "SerializeJSONProperty gap indent JNull = ascii ''null''"
| "SerializeJSONProperty gap indent (JBool b) = (if b then ascii ''true'' else ascii ''false'')"
| "SerializeJSONProperty gap indent (JNum r) = r"
| "SerializeJSONProperty gap indent (JStr s) = QuoteJSONString s"
| "SerializeJSONProperty gap indent (JArr vs) =
     (let stepback = indent;
          indent = indent @ gap;
          partial = map (SerializeJSONProperty gap indent) vs
      in if partial = [] then ascii ''[]''
         else if gap = [] then ascii ''['' @ join (ascii '','') partial @ ascii '']''
         else ascii ''['' @ [0xA] @ indent @ join (ascii '','' @ [0xA] @ indent) partial
              @ [0xA] @ stepback @ ascii '']'')"
| "SerializeJSONProperty gap indent (JObj kvs) =
     (let stepback = indent;
          indent = indent @ gap;
          partial = map (\<lambda>(k, v).
              QuoteJSONString k @ ascii '':'' @ (if gap \<noteq> [] then ascii '' '' else [])
                @ SerializeJSONProperty gap indent v) kvs
      in if partial = [] then ascii ''{}''
         else if gap = [] then ascii ''{'' @ join (ascii '','') partial @ ascii ''}''
         else ascii ''{'' @ [0xA] @ indent @ join (ascii '','' @ [0xA] @ indent) partial
              @ [0xA] @ stepback @ ascii ''}'')"

text \<open>\<^verbatim>\<open>JSON.stringify(value)\<close> and \<^verbatim>\<open>JSON.stringify(value, null, 2)\<close>.\<close>

definition stringify :: "json \<Rightarrow> ustring" where
  "stringify v = SerializeJSONProperty [] [] v"

definition stringify_indent2 :: "json \<Rightarrow> ustring" where
  "stringify_indent2 v = SerializeJSONProperty (ascii ''  '') [] v"

text \<open>
  Truthiness of a parsed JSON value: \<^verbatim>\<open>null\<close>, \<^verbatim>\<open>false\<close>, zero and the empty string are
  falsy, everything else is truthy. A missing property reads as \<^verbatim>\<open>undefined\<close>, falsy.
\<close>

fun truthy :: "json \<Rightarrow> bool" where
  "truthy JNull = False"
| "truthy (JBool b) = b"
| "truthy (JNum r) = (r \<noteq> ascii ''0'')"
| "truthy (JStr s) = (s \<noteq> [])"
| "truthy (JArr vs) = True"
| "truthy (JObj kvs) = True"

fun truthy_opt :: "json option \<Rightarrow> bool" where
  "truthy_opt None = False"
| "truthy_opt (Some v) = truthy v"

text \<open>
  Reading a property by a key that no prototype defines (\<^verbatim>\<open>final_response\<close> and
  \<^verbatim>\<open>response\<close> are such keys): an object gives its own property, \<^verbatim>\<open>null\<close> raises a
  TypeError, every other value gives \<^verbatim>\<open>undefined\<close>.
\<close>

datatype type_error =
  PropertyOfNull ustring | PropertyOfUndefined ustring | NotAFunction ustring

datatype thrown = ErrorObj ustring | NonError

fun own_property :: "json \<Rightarrow> ustring \<Rightarrow> json option" where
  "own_property (JObj kvs) k = map_of kvs k"
| "own_property v k = None"

definition get_property :: "(type_error \<Rightarrow> ustring) \<Rightarrow> json \<Rightarrow> ustring \<Rightarrow> thrown + json option" where
  "get_property type_error_message v k =
     (if v = JNull then Inl (ErrorObj (type_error_message (PropertyOfNull k)))
      else Inr (own_property v k))"

text \<open>
  The call \<^verbatim>\<open>v.trim()\<close> on the value of a property: a string trims, \<^verbatim>\<open>undefined\<close>
  has no properties, and any other JSON value has no callable \<^verbatim>\<open>trim\<close>; both raise
  a TypeError.
\<close>

fun call_trim :: "(type_error \<Rightarrow> ustring) \<Rightarrow> ustring \<Rightarrow> json option \<Rightarrow> thrown + ustring" where
  "call_trim type_error_message k (Some (JStr s)) = Inr (trim s)"
| "call_trim type_error_message k None =
     Inl (ErrorObj (type_error_message (PropertyOfUndefined (ascii ''trim''))))"
| "call_trim type_error_message k (Some v) =
     Inl (ErrorObj (type_error_message (NotAFunction k)))"

section \<open>The form schema\<close>

datatype Mode = Text | Image

record FormData =
  mode :: Mode
  prompt :: ustring
  system :: ustring
  chainedMode :: bool

text \<open>
  The values the form holds before validation. The mode is set from the two radio items
  only; \<open>raw_chainedMode = None\<close> is \<^verbatim>\<open>undefined\<close>, which the schema defaults to false.
\<close>

record form_values =
  raw_mode :: Mode
  raw_prompt :: ustring
  raw_system :: ustring
  raw_chainedMode :: "bool option"

text \<open>
  A string schema is its chain of checks, run in the order they were chained:
  \<^verbatim>\<open>trim\<close> replaces the value, \<^verbatim>\<open>min\<close> and \<^verbatim>\<open>max\<close> compare its length and add an
  issue with their message.
\<close>

datatype check = Trim | Min nat ustring | Max nat ustring

fun run_checks :: "check list \<Rightarrow> ustring \<Rightarrow> ustring \<times> ustring list" where
  "run_checks [] s = (s, [])"
| "run_checks (Trim # cs) s = run_checks cs (trim s)"
| "run_checks (Min n msg # cs) s =
     (let (s', issues) = run_checks cs s
      in (s', if length s < n then msg # issues else issues))"
| "run_checks (Max n msg # cs) s =
     (let (s', issues) = run_checks cs s
      in (s', if length s > n then msg # issues else issues))"

datatype field = PromptField | SystemField

definition prompt_schema :: "check list" where
  "prompt_schema =
     [Trim, Min 1 (ascii ''Prompt is required''),
      Max 2000 (ascii ''Prompt must be less than 2000 characters'')]"

definition system_schema :: "check list" where
  "system_schema = [Trim, Max 500 (ascii ''System message must be less than 500 characters'')]"

definition formSchema :: "form_values \<Rightarrow> (field \<times> ustring) list + FormData" where
  "formSchema v =
     (let (p, p_issues) = run_checks prompt_schema (raw_prompt v);
          (s, s_issues) = run_checks system_schema (raw_system v);
          issues = map (Pair PromptField) p_issues @ map (Pair SystemField) s_issues
      in if issues = [] then
           Inr \<lparr>mode = raw_mode v, prompt = p, system = s,
                chainedMode = (case raw_chainedMode v of None \<Rightarrow> False | Some b \<Rightarrow> b)\<rparr>
         else Inl issues)"

section \<open>The page state and its effects\<close>

datatype image_file = File (file_name: ustring) (file_bytes: "8 word list")

datatype form_value = FString ustring | FFile image_file

datatype body = JsonText ustring | Multipart "(ustring \<times> form_value) list"

record request =
  url :: ustring
  http_method :: ustring
  headers :: "(ustring \<times> ustring) list"
  request_body :: body

text \<open>
  What \<^verbatim>\<open>fetch\<close> gives back: the promise rejects, or resolves to a response whose
  \<^verbatim>\<open>text()\<close> and \<^verbatim>\<open>json()\<close> in turn reject or resolve. \<^verbatim>\<open>ok\<close> is true for a status
  from 200 to 299.
\<close>

record http_response =
  status :: "16 word"
  body_text :: "thrown + ustring"
  body_json :: "thrown + json"

definition ok :: "http_response \<Rightarrow> bool" where
  "ok res \<longleftrightarrow> 200 \<le> status res \<and> status res \<le> 299"

datatype fetch_outcome = Rejects thrown | Resolves http_response

datatype toast = ToastError ustring | ToastSuccess ustring

datatype event = SetIsLoading bool | SetResponse ustring | Toast toast | Fetch request

text \<open>
  The component's state (\<^verbatim>\<open>useState\<close> cells and the form's errors) with the trace of
  the effects performed so far, in order.
\<close>

record world =
  response :: ustring
  isLoading :: bool
  selectedImage :: "image_file option"
  imagePreview :: ustring
  errors :: "(field \<times> ustring) list"
  trace :: "event list"

definition setIsLoading :: "bool \<Rightarrow> world \<Rightarrow> world" where
  "setIsLoading b w = w\<lparr>isLoading := b, trace := trace w @ [SetIsLoading b]\<rparr>"

definition setResponse :: "ustring \<Rightarrow> world \<Rightarrow> world" where
  "setResponse s w = w\<lparr>response := s, trace := trace w @ [SetResponse s]\<rparr>"

definition toast_error :: "ustring \<Rightarrow> world \<Rightarrow> world" where
  "toast_error m w = w\<lparr>trace := trace w @ [Toast (ToastError m)]\<rparr>"

definition toast_success :: "ustring \<Rightarrow> world \<Rightarrow> world" where
  "toast_success m w = w\<lparr>trace := trace w @ [Toast (ToastSuccess m)]\<rparr>"

definition call_fetch :: "request \<Rightarrow> world \<Rightarrow> world" where
  "call_fetch req w = w\<lparr>trace := trace w @ [Fetch req]\<rparr>"

section \<open>The submit handler\<close>

text \<open>
  A block of the handler takes the world and gives the world after it, with \<open>Inl e\<close> when
  it threw \<open>e\<close> and \<open>Inr ()\<close> when it ran to its end or returned. The parameter
  \<open>type_error_message\<close> is the engine's wording of a TypeError, \<open>fetch\<close> the answer of the
  network to a request.
\<close>

text \<open>
  Lines 98 to 106. Every branch calls \<^verbatim>\<open>setResponse\<close> on a string and the success toast
  follows; a TypeError can only arise while the condition or that string is evaluated, so
  the string is computed first.
\<close>

definition display_string :: "(type_error \<Rightarrow> ustring) \<Rightarrow> json \<Rightarrow> thrown + ustring" where
  "display_string type_error_message result =
     (case get_property type_error_message result (ascii ''final_response'') of
        Inl e \<Rightarrow> Inl e
      | Inr final_response \<Rightarrow>
          if truthy_opt final_response then
            call_trim type_error_message (ascii ''final_response'') final_response
          else
            (case get_property type_error_message result (ascii ''response'') of
               Inl e \<Rightarrow> Inl e
             | Inr response_field \<Rightarrow>
                 if truthy_opt response_field then
                   call_trim type_error_message (ascii ''response'') response_field
                 else Inr (stringify_indent2 result)))"

definition show_result ::
  "(type_error \<Rightarrow> ustring) \<Rightarrow> json \<Rightarrow> world \<Rightarrow> (thrown + unit) \<times> world" where
  "show_result type_error_message result w =
     (case display_string type_error_message result of
        Inl e \<Rightarrow> (Inl e, w)
      | Inr s \<Rightarrow>
          (Inr (), toast_success (ascii ''Response received successfully'') (setResponse s w)))"

text \<open>Lines 85 to 106: the request is sent and the response examined.\<close>

definition send ::
  "(type_error \<Rightarrow> ustring) \<Rightarrow> (request \<Rightarrow> fetch_outcome) \<Rightarrow> FormData \<Rightarrow> ustring \<Rightarrow> body \<Rightarrow>
     (ustring \<times> ustring) list \<Rightarrow> world \<Rightarrow> (thrown + unit) \<times> world" where
  "send type_error_message fetch data fetchUrl requestBody hdrs w =
     (let req = \<lparr>url = fetchUrl, http_method = ascii ''POST'',
                 headers = (if mode data = Image
                            then [(ascii ''accept'', ascii ''application/json'')] else hdrs),
                 request_body = requestBody\<rparr>;
          w1 = call_fetch req w
      in case fetch req of
           Rejects e \<Rightarrow> (Inl e, w1)
         | Resolves res \<Rightarrow>
             if \<not> ok res then
               (case body_text res of
                  Inl e \<Rightarrow> (Inl e, w1)
                | Inr errorText \<Rightarrow>
                    (Inl (ErrorObj (ascii ''HTTP error! status: '' @ decimal (unat (status res))
                                    @ ascii '', message: '' @ errorText)), w1))
             else
               (case body_json res of
                  Inl e \<Rightarrow> (Inl e, w1)
                | Inr result \<Rightarrow> show_result type_error_message result w1))"

text \<open>Lines 62 to 106: the body of \<^verbatim>\<open>try\<close>.\<close>

definition try_block ::
  "(type_error \<Rightarrow> ustring) \<Rightarrow> (request \<Rightarrow> fetch_outcome) \<Rightarrow> FormData \<Rightarrow> world \<Rightarrow>
     (thrown + unit) \<times> world" where
  "try_block type_error_message fetch data w =
     (let hdrs = [(ascii ''accept'', ascii ''application/json'')]
      in if mode data = Image then
           (case selectedImage w of
              None \<Rightarrow>
                (Inr (), setIsLoading False
                           (toast_error (ascii ''Please select an image before submitting'') w))
            | Some img \<Rightarrow>
                (let formData = [(ascii ''prompt'', FString (prompt data)),
                                 (ascii ''image'', FFile img)];
                     fetchUrl = (if chainedMode data then ascii ''/predict/chained_image''
                                 else ascii ''/predict/image'');
                     requestBody = Multipart formData
                 in send type_error_message fetch data fetchUrl requestBody hdrs w))
         else
           (let fetchUrl = (if chainedMode data then ascii ''/predict/chained_text''
                            else ascii ''/predict/text'');
                requestBody = JsonText (stringify
                   (JObj [(ascii ''prompt'', JStr (prompt data)),
                          (ascii ''system'', JStr (system data))]));
                hdrs = hdrs @ [(ascii ''Content-Type'', ascii ''application/json'')]
            in send type_error_message fetch data fetchUrl requestBody hdrs w))"

text \<open>Lines 107 to 110: every thrown value is caught; only an Error has a message.\<close>

definition catch_block :: "thrown \<Rightarrow> world \<Rightarrow> world" where
  "catch_block error w =
     (let errorMessage = (case error of
                            ErrorObj m \<Rightarrow> m
                          | NonError \<Rightarrow> ascii ''An unknown error occurred'')
      in toast_error (ascii ''Failed to get response'')
           (setResponse (ascii ''Error: '' @ errorMessage) w))"

definition finally_block :: "world \<Rightarrow> world" where
  "finally_block w = setIsLoading False w"

definition onSubmit ::
  "(type_error \<Rightarrow> ustring) \<Rightarrow> (request \<Rightarrow> fetch_outcome) \<Rightarrow> FormData \<Rightarrow> world \<Rightarrow> world" where
  "onSubmit type_error_message fetch data w =
     (let w1 = setIsLoading True w;
          w2 = setResponse [] w1
      in case try_block type_error_message fetch data w2 of
           (Inr u, w3) \<Rightarrow> finally_block w3
         | (Inl error, w3) \<Rightarrow> finally_block (catch_block error w3))"

text \<open>
  \<^verbatim>\<open>form.handleSubmit(onSubmit)\<close>: the resolver runs the schema on the form's values; the
  handler is called with the parsed data when there is no issue, and the issues become
  the form's errors otherwise.
\<close>

definition handleSubmit ::
  "(type_error \<Rightarrow> ustring) \<Rightarrow> (request \<Rightarrow> fetch_outcome) \<Rightarrow> form_values \<Rightarrow> world \<Rightarrow> world" where
  "handleSubmit type_error_message fetch v w =
     (case formSchema v of
        Inl issues \<Rightarrow> w\<lparr>errors := issues\<rparr>
      | Inr data \<Rightarrow> onSubmit type_error_message fetch data (w\<lparr>errors := []\<rparr>))"

section \<open>Observations on a run\<close>

text \<open>The effects a run added to the trace, and the requests and toasts among them.\<close>

definition emitted :: "world \<Rightarrow> world \<Rightarrow> event list" where
  "emitted w w' = drop (length (trace w)) (trace w')"

fun fetches :: "event list \<Rightarrow> request list" where
  "fetches [] = []"
| "fetches (Fetch r # es) = r # fetches es"
| "fetches (e # es) = fetches es"

fun toasts :: "event list \<Rightarrow> toast list" where
  "toasts [] = []"
| "toasts (Toast t # es) = t # toasts es"
| "toasts (e # es) = toasts es"

text \<open>A network that gives every request the same answer.\<close>

definition always :: "fetch_outcome \<Rightarrow> request \<Rightarrow> fetch_outcome" where
  "always r req = r"

text \<open>The wording of V8 for the two TypeErrors, for concrete runs.\<close>

fun v8_message :: "type_error \<Rightarrow> ustring" where
  "v8_message (PropertyOfNull k) =
     ascii ''Cannot read properties of null (reading '' @ [0x27] @ k @ [0x27] @ ascii '')''"
| "v8_message (PropertyOfUndefined k) =
     ascii ''Cannot read properties of undefined (reading '' @ [0x27] @ k @ [0x27] @ ascii '')''"
| "v8_message (NotAFunction k) = ascii ''result.'' @ k @ ascii ''.trim is not a function''"

text \<open>The state of the page as it is mounted.\<close>

definition initial_world :: world where
  "initial_world =
     \<lparr>response = [], isLoading = False, selectedImage = None, imagePreview = [],
      errors = [], trace = []\<rparr>"

section \<open>The shape of a run\<close>

lemmas effect_defs = setIsLoading_def setResponse_def toast_error_def toast_success_def call_fetch_def

lemma emitted_append: "trace w' = trace w @ evs \<Longrightarrow> emitted w w' = evs"
  by (simp add: emitted_def)

lemma show_result_shapes:
  "(\<exists>e. show_result tm r w = (Inl e, w)) \<or>
   (\<exists>s. show_result tm r w =
      (Inr (), toast_success (ascii ''Response received successfully'') (setResponse s w)))"
  by (auto simp: show_result_def split: sum.split)

lemma send_shapes:
  assumes req: "req = \<lparr>url = u, http_method = ascii ''POST'',
                   headers = (if mode d = Image
                              then [(ascii ''accept'', ascii ''application/json'')] else h),
                   request_body = b\<rparr>"
  shows "(\<exists>e. send tm fetch d u b h w = (Inl e, call_fetch req w)) \<or>
   (\<exists>s. send tm fetch d u b h w =
      (Inr (), toast_success (ascii ''Response received successfully'')
                 (setResponse s (call_fetch req w))))"
proof (cases "fetch req")
  case (Rejects e)
  then show ?thesis
    by (simp add: send_def req Let_def)
next
  case (Resolves res)
  show ?thesis
  proof (cases "ok res")
    case False
    with Resolves show ?thesis
      by (cases "body_text res") (simp_all add: send_def req Let_def)
  next
    case True
    show ?thesis
    proof (cases "body_json res")
      case (Inl e)
      with True Resolves show ?thesis
        by (simp add: send_def req Let_def)
    next
      case (Inr result)
      with True Resolves
      have "send tm fetch d u b h w = show_result tm result (call_fetch req w)"
        by (simp add: send_def req Let_def)
      with show_result_shapes [of tm result "call_fetch req w"] show ?thesis
        by simp
    qed
  qed
qed

lemma onSubmit_of_send:
  assumes "try_block tm fetch d (setResponse [] (setIsLoading True w)) =
             send tm fetch d u b h (setResponse [] (setIsLoading True w))"
    and "req = \<lparr>url = u, http_method = ascii ''POST'',
                   headers = (if mode d = Image
                              then [(ascii ''accept'', ascii ''application/json'')] else h),
                   request_body = b\<rparr>"
  shows "(\<exists>m. emitted w (onSubmit tm fetch d w) =
             [SetIsLoading True, SetResponse [], Fetch req, SetResponse (ascii ''Error: '' @ m),
              Toast (ToastError (ascii ''Failed to get response'')), SetIsLoading False]) \<or>
         (\<exists>s. emitted w (onSubmit tm fetch d w) =
             [SetIsLoading True, SetResponse [], Fetch req, SetResponse s,
              Toast (ToastSuccess (ascii ''Response received successfully'')), SetIsLoading False])"
  using send_shapes [OF assms(2), of tm fetch "setResponse [] (setIsLoading True w)"] assms(1)
  by (auto simp: onSubmit_def catch_block_def finally_block_def effect_defs emitted_def Let_def
           split: thrown.split)

lemma try_block_text:
  "mode d = Text \<Longrightarrow>
   try_block tm fetch d w =
     send tm fetch d
       (if chainedMode d then ascii ''/predict/chained_text'' else ascii ''/predict/text'')
       (JsonText (stringify (JObj [(ascii ''prompt'', JStr (prompt d)),
                                   (ascii ''system'', JStr (system d))])))
       [(ascii ''accept'', ascii ''application/json''),
        (ascii ''Content-Type'', ascii ''application/json'')] w"
  by (simp add: try_block_def Let_def)

lemma try_block_image:
  "mode d = Image \<Longrightarrow> selectedImage w = Some img \<Longrightarrow>
   try_block tm fetch d w =
     send tm fetch d
       (if chainedMode d then ascii ''/predict/chained_image'' else ascii ''/predict/image'')
       (Multipart [(ascii ''prompt'', FString (prompt d)), (ascii ''image'', FFile img)])
       [(ascii ''accept'', ascii ''application/json'')] w"
  by (simp add: try_block_def Let_def)

lemma try_block_no_image:
  "mode d = Image \<Longrightarrow> selectedImage w = None \<Longrightarrow>
   try_block tm fetch d w =
     (Inr (), setIsLoading False
                (toast_error (ascii ''Please select an image before submitting'') w))"
  by (simp add: try_block_def Let_def)

lemma selectedImage_entry [simp]:
  "selectedImage (setResponse s (setIsLoading b w)) = selectedImage w"
  by (simp add: effect_defs)

lemma fetches_text:
  assumes "mode d = Text"
  shows "fetches (emitted w (onSubmit tm fetch d w)) =
     [\<lparr>url = (if chainedMode d then ascii ''/predict/chained_text'' else ascii ''/predict/text''),
       http_method = ascii ''POST'',
       headers = [(ascii ''accept'', ascii ''application/json''),
                  (ascii ''Content-Type'', ascii ''application/json'')],
       request_body = JsonText (stringify (JObj [(ascii ''prompt'', JStr (prompt d)),
                                   (ascii ''system'', JStr (system d))]))\<rparr>]"
  using onSubmit_of_send [OF try_block_text [OF assms] refl, where tm = tm and fetch = fetch and w = w] assms
  by auto

lemma fetches_image:
  assumes "mode d = Image" and "selectedImage w = Some img"
  shows "fetches (emitted w (onSubmit tm fetch d w)) =
     [\<lparr>url = (if chainedMode d then ascii ''/predict/chained_image'' else ascii ''/predict/image''),
       http_method = ascii ''POST'',
       headers = [(ascii ''accept'', ascii ''application/json'')],
       request_body = Multipart [(ascii ''prompt'', FString (prompt d)), (ascii ''image'', FFile img)]\<rparr>]"
proof -
  have "selectedImage (setResponse [] (setIsLoading True w)) = Some img"
    using assms(2) by simp
  from onSubmit_of_send [OF try_block_image [OF assms(1) this] refl, where tm = tm and fetch = fetch]
  show ?thesis
    using assms(1) by auto
qed

lemma onSubmit_no_image:
  assumes "mode d = Image" and "selectedImage w = None"
  shows "onSubmit tm fetch d w =
     w\<lparr>response := [], isLoading := False,
       trace := trace w @
         [SetIsLoading True, SetResponse [],
          Toast (ToastError (ascii ''Please select an image before submitting'')),
          SetIsLoading False, SetIsLoading False]\<rparr>"
  using assms
  by (simp add: onSubmit_def try_block_no_image finally_block_def effect_defs)

lemma onSubmit_thrown:
  "try_block tm fetch d (setResponse [] (setIsLoading True w)) = (Inl e, w3) \<Longrightarrow>
   onSubmit tm fetch d w = finally_block (catch_block e w3)"
  by (simp add: onSubmit_def)

lemma onSubmit_completed:
  "try_block tm fetch d (setResponse [] (setIsLoading True w)) = (Inr u, w3) \<Longrightarrow>
   onSubmit tm fetch d w = finally_block w3"
  by (simp add: onSubmit_def)

lemma try_block_valid:
  assumes "mode d = Image \<longrightarrow> selectedImage w \<noteq> None"
  shows "\<exists>u b h. try_block tm fetch d w = send tm fetch d u b h w"
proof (cases "mode d")
  case Text
  then show ?thesis using try_block_text by blast
next
  case Image
  with assms obtain img where "selectedImage w = Some img" by auto
  with Image show ?thesis using try_block_image by blast
qed

lemma send_http_error:
  assumes "\<not> ok res" and "body_text res = Inr t"
  shows "\<exists>req. send tm (always (Resolves res)) d u b h w =
     (Inl (ErrorObj (ascii ''HTTP error! status: '' @ decimal (unat (status res))
                     @ ascii '', message: '' @ t)), call_fetch req w)"
  using assms by (auto simp: send_def always_def Let_def)

lemma send_image_system:
  "mode d = Image \<Longrightarrow> send tm fetch (d\<lparr>system := s\<rparr>) u b h w = send tm fetch d u b h w"
  by (simp add: send_def)

lemma try_block_image_system:
  "mode d = Image \<Longrightarrow> try_block tm fetch (d\<lparr>system := s\<rparr>) w = try_block tm fetch d w"
  by (cases "selectedImage w")
     (simp_all add: try_block_no_image try_block_image send_image_system)

lemma onSubmit_image_system:
  "mode d = Image \<Longrightarrow> onSubmit tm fetch (d\<lparr>system := s\<rparr>) w = onSubmit tm fetch d w"
  by (simp add: onSubmit_def try_block_image_system)

lemma own_property_Some_not_null: "own_property r k = Some v \<Longrightarrow> r \<noteq> JNull"
  by (cases r) simp_all

lemma display_final_response:
  assumes "own_property r (ascii ''final_response'') = Some (JStr s)" and "s \<noteq> []"
  shows "display_string tm r = Inr (trim s)"
  using assms own_property_Some_not_null [OF assms(1)]
  by (simp add: display_string_def get_property_def)

lemma display_response_field:
  assumes "\<not> truthy_opt (own_property r (ascii ''final_response''))"
    and "own_property r (ascii ''response'') = Some (JStr s)" and "s \<noteq> []"
  shows "display_string tm r = Inr (trim s)"
  using assms own_property_Some_not_null [OF assms(2)]
  by (simp add: display_string_def get_property_def)

lemma display_whole_payload:
  assumes "r \<noteq> JNull"
    and "\<not> truthy_opt (own_property r (ascii ''final_response''))"
    and "\<not> truthy_opt (own_property r (ascii ''response''))"
  shows "display_string tm r = Inr (stringify_indent2 r)"
  using assms
  by (simp add: display_string_def get_property_def)

lemma send_success:
  assumes "ok res" and "body_json res = Inr result" and "display_string tm result = Inr s"
  shows "\<exists>req. send tm (always (Resolves res)) d u b h w =
     (Inr (), toast_success (ascii ''Response received successfully'')
                (setResponse s (call_fetch req w)))"
  using assms by (auto simp: send_def always_def show_result_def Let_def)

lemma onSubmit_success:
  assumes "mode data = Image \<longrightarrow> selectedImage w \<noteq> None"
    and "ok res" and "body_json res = Inr result" and "display_string tm result = Inr s"
  shows "response (onSubmit tm (always (Resolves res)) data w) = s"
proof -
  let ?w2 = "setResponse [] (setIsLoading True w)"
  from assms(1) have "mode data = Image \<longrightarrow> selectedImage ?w2 \<noteq> None"
    by simp
  from try_block_valid [OF this] obtain u bd h where
    "try_block tm (always (Resolves res)) data ?w2 = send tm (always (Resolves res)) data u bd h ?w2"
    by blast
  with send_success [OF assms(2,3,4)] obtain req where
    "try_block tm (always (Resolves res)) data ?w2 =
       (Inr (), toast_success (ascii ''Response received successfully'')
                (setResponse s (call_fetch req ?w2)))"
    by metis
  from onSubmit_completed [OF this] show ?thesis
    by (simp add: finally_block_def effect_defs)
qed

section \<open>Validation\<close>

lemma run_checks_prompt:
  "run_checks prompt_schema p =
     (trim p,
      (if length (trim p) < 1 then [ascii ''Prompt is required''] else []) @
      (if length (trim p) > 2000 then [ascii ''Prompt must be less than 2000 characters''] else []))"
  by (simp add: prompt_schema_def)

lemma run_checks_system:
  "run_checks system_schema s =
     (trim s,
      if length (trim s) > 500 then [ascii ''System message must be less than 500 characters'']
      else [])"
  by (simp add: system_schema_def)

lemma formSchema_Inr:
  assumes "formSchema v = Inr data"
  shows "prompt data = trim (raw_prompt v) \<and> 1 \<le> length (trim (raw_prompt v)) \<and>
         length (trim (raw_prompt v)) \<le> 2000"
  using assms
  by (auto simp: formSchema_def run_checks_prompt run_checks_system Suc_le_eq split: if_splits)

lemma formSchema_required:
  assumes "trim (raw_prompt v) = []"
  shows "\<exists>issues. formSchema v = Inl issues \<and>
           (PromptField, ascii ''Prompt is required'') \<in> set issues"
  using assms
  by (simp add: formSchema_def run_checks_prompt run_checks_system)

lemma formSchema_too_long:
  assumes "2000 < length (trim (raw_prompt v))"
  shows "\<exists>issues. formSchema v = Inl issues \<and>
           (PromptField, ascii ''Prompt must be less than 2000 characters'') \<in> set issues"
  using assms
  by (simp add: formSchema_def run_checks_prompt run_checks_system)

lemma handleSubmit_rejected:
  "formSchema v = Inl issues \<Longrightarrow> emitted w (handleSubmit tm fetch v w) = []"
  by (simp add: handleSubmit_def emitted_def)

lemma trim_padded: "\<not> is_white_space a \<Longrightarrow> is_white_space b \<Longrightarrow> trim (a # replicate n b) = [a]"
  by (simp add: trim_def dropWhile_append)

lemma trim_replicate: "\<not> is_white_space a \<Longrightarrow> trim (replicate n a) = replicate n a"
  by (simp add: trim_def dropWhile_replicate)

lemma formSchema_system:
  assumes "length (trim s) \<le> 500"
  shows "formSchema (v\<lparr>raw_system := s\<rparr>) =
     (if snd (run_checks prompt_schema (raw_prompt v)) = [] then
        Inr \<lparr>mode = raw_mode v, prompt = trim (raw_prompt v), system = trim s,
             chainedMode = (case raw_chainedMode v of None \<Rightarrow> False | Some b \<Rightarrow> b)\<rparr>
      else Inl (map (Pair PromptField) (snd (run_checks prompt_schema (raw_prompt v)))))"
  using assms
  by (simp add: formSchema_def run_checks_prompt run_checks_system)

lemma handleSubmit_image_system:
  assumes "raw_mode v = Image" and "length (trim s1) \<le> 500" and "length (trim s2) \<le> 500"
  shows "handleSubmit tm fetch (v\<lparr>raw_system := s1\<rparr>) w =
         handleSubmit tm fetch (v\<lparr>raw_system := s2\<rparr>) w"
proof -
  let ?d = "\<lparr>mode = raw_mode v, prompt = trim (raw_prompt v), system = [],
             chainedMode = (case raw_chainedMode v of None \<Rightarrow> False | Some b \<Rightarrow> b)\<rparr>"
  have img: "mode ?d = Image"
    using assms(1) by simp
  have "onSubmit tm fetch (?d\<lparr>system := trim s1\<rparr>) (w\<lparr>errors := []\<rparr>) =
        onSubmit tm fetch (?d\<lparr>system := trim s2\<rparr>) (w\<lparr>errors := []\<rparr>)"
    by (simp only: onSubmit_image_system [OF img])
  then show ?thesis
    by (simp add: handleSubmit_def formSchema_system [OF assms(2)] formSchema_system [OF assms(3)])
qed

text \<open>
  C5, as the schema has it. The prompt is trimmed first and its trimmed length is what
  \<^verbatim>\<open>min(1)\<close> and \<^verbatim>\<open>max(2000)\<close> see. A prompt whose trimmed form is empty is rejected
  with the issue \<^verbatim>\<open>Prompt is required\<close>; a prompt whose trimmed form is longer than 2000
  code units is rejected; in both cases the handler does not run (nothing is emitted).
  When the schema accepts, the handler runs on the trimmed prompt, whose length is between
  1 and 2000; and whenever the submission emits anything, the trimmed length is in that
  range.
\<close>

theorem C5_prompt_validation:
  "(trim (raw_prompt v) = [] \<longrightarrow>
      (\<exists>issues. formSchema v = Inl issues \<and>
         (PromptField, ascii ''Prompt is required'') \<in> set issues) \<and>
      emitted w (handleSubmit tm fetch v w) = []) \<and>
   (2000 < length (trim (raw_prompt v)) \<longrightarrow>
      (\<exists>issues. formSchema v = Inl issues \<and>
         (PromptField, ascii ''Prompt must be less than 2000 characters'') \<in> set issues) \<and>
      emitted w (handleSubmit tm fetch v w) = []) \<and>
   (formSchema v = Inr data \<longrightarrow>
      handleSubmit tm fetch v w = onSubmit tm fetch data (w\<lparr>errors := []\<rparr>) \<and>
      prompt data = trim (raw_prompt v) \<and>
      1 \<le> length (trim (raw_prompt v)) \<and> length (trim (raw_prompt v)) \<le> 2000) \<and>
   (emitted w (handleSubmit tm fetch v w) \<noteq> [] \<longrightarrow>
      1 \<le> length (trim (raw_prompt v)) \<and> length (trim (raw_prompt v)) \<le> 2000)"
proof (intro conjI impI)
  assume "trim (raw_prompt v) = []"
  from formSchema_required [OF this]
  show "\<exists>issues. formSchema v = Inl issues \<and>
         (PromptField, ascii ''Prompt is required'') \<in> set issues"
    and "emitted w (handleSubmit tm fetch v w) = []"
    using handleSubmit_rejected by blast+
next
  assume "2000 < length (trim (raw_prompt v))"
  from formSchema_too_long [OF this]
  show "\<exists>issues. formSchema v = Inl issues \<and>
         (PromptField, ascii ''Prompt must be less than 2000 characters'') \<in> set issues"
    and "emitted w (handleSubmit tm fetch v w) = []"
    using handleSubmit_rejected by blast+
next
  assume ok: "formSchema v = Inr data"
  then show "handleSubmit tm fetch v w = onSubmit tm fetch data (w\<lparr>errors := []\<rparr>)"
    by (simp add: handleSubmit_def)
  from formSchema_Inr [OF ok]
  show "prompt data = trim (raw_prompt v)"
    and "1 \<le> length (trim (raw_prompt v))" and "length (trim (raw_prompt v)) \<le> 2000"
    by simp_all
next
  assume run: "emitted w (handleSubmit tm fetch v w) \<noteq> []"
  then obtain d where "formSchema v = Inr d"
    using handleSubmit_rejected by (cases "formSchema v") auto
  from formSchema_Inr [OF this]
  show "1 \<le> length (trim (raw_prompt v))" and "length (trim (raw_prompt v)) \<le> 2000"
    by simp_all
qed

text \<open>
  Instances of C5: a prompt of three spaces, a prompt of 2001 letters, and the prompt
  \<^verbatim>\<open> Hello \<close>, which is accepted as \<^verbatim>\<open>Hello\<close>.
\<close>

theorem C5_prompt_validation_witness:
  "(\<exists>issues. formSchema \<lparr>raw_mode = Text, raw_prompt = ascii ''   '', raw_system = ascii ''Sys'',
                           raw_chainedMode = Some False\<rparr> = Inl issues \<and>
       (PromptField, ascii ''Prompt is required'') \<in> set issues) \<and>
   (\<exists>issues. formSchema \<lparr>raw_mode = Text, raw_prompt = replicate 2001 0x61, raw_system = ascii ''Sys'',
                           raw_chainedMode = Some False\<rparr> = Inl issues \<and>
       (PromptField, ascii ''Prompt must be less than 2000 characters'') \<in> set issues) \<and>
   handleSubmit v8_message (always (Rejects NonError))
      \<lparr>raw_mode = Text, raw_prompt = ascii '' Hello '', raw_system = ascii ''Sys'',
        raw_chainedMode = Some False\<rparr> initial_world =
     onSubmit v8_message (always (Rejects NonError))
      \<lparr>mode = Text, prompt = ascii ''Hello'', system = ascii ''Sys'', chainedMode = False\<rparr>
      (initial_world\<lparr>errors := []\<rparr>) \<and>
   1 \<le> length (trim (ascii '' Hello '')) \<and> length (trim (ascii '' Hello '')) \<le> 2000"
proof -
  let ?v1 = "\<lparr>raw_mode = Text, raw_prompt = ascii ''   '', raw_system = ascii ''Sys'',
              raw_chainedMode = Some False\<rparr>"
  let ?v2 = "\<lparr>raw_mode = Text, raw_prompt = replicate 2001 0x61, raw_system = ascii ''Sys'',
              raw_chainedMode = Some False\<rparr>"
  let ?v3 = "\<lparr>raw_mode = Text, raw_prompt = ascii '' Hello '', raw_system = ascii ''Sys'',
              raw_chainedMode = Some False\<rparr>"
  let ?d3 = "\<lparr>mode = Text, prompt = ascii ''Hello'', system = ascii ''Sys'', chainedMode = False\<rparr>"
  have tr: "trim (ascii ''   '') = []" "trim (ascii '' Hello '') = ascii ''Hello''"
    "trim (ascii ''Sys'') = ascii ''Sys''"
    by (simp_all add: trim_def ascii_def is_white_space_def)
  have long: "trim (replicate 2001 (0x61 :: 16 word)) = replicate 2001 0x61"
    by (rule trim_replicate) (simp add: is_white_space_def)
  have len: "length (ascii ''Hello'') = 5" "length (ascii ''Sys'') = 3"
    by (simp_all add: ascii_def)
  have accepted: "formSchema ?v3 = Inr ?d3"
    by (simp add: formSchema_def run_checks_prompt run_checks_system tr len)
  have nonempty: "emitted initial_world (handleSubmit v8_message (always (Rejects NonError)) ?v3 initial_world) \<noteq> []"
    by (simp add: handleSubmit_def accepted onSubmit_def finally_block_def effect_defs emitted_def
        initial_world_def split: prod.split sum.split)
  note t1 = C5_prompt_validation [where v = ?v1, THEN conjunct1]
  note t2 = C5_prompt_validation [where v = ?v2, THEN conjunct2, THEN conjunct1]
  note t3 = C5_prompt_validation [where v = ?v3 and data = ?d3 and tm = v8_message
      and fetch = "always (Rejects NonError)" and w = initial_world,
      THEN conjunct2, THEN conjunct2, THEN conjunct1]
  note t4 = C5_prompt_validation [where v = ?v3 and tm = v8_message
      and fetch = "always (Rejects NonError)" and w = initial_world,
      THEN conjunct2, THEN conjunct2, THEN conjunct2]
  from t1 t2 t3 t4 nonempty show ?thesis
    by (simp add: tr long accepted)
qed

text \<open>
  Against C5 as the specification words it (every prompt longer than 2000 characters is
  rejected): the letter \<^verbatim>\<open>a\<close> followed by 2000 spaces has 2001 code units and is
  accepted, as the prompt \<^verbatim>\<open>a\<close>.
\<close>

theorem C5_padded_prompt_counterexample:
  "2000 < length (0x61 # replicate 2000 (0x20 :: 16 word)) \<and>
   formSchema \<lparr>raw_mode = Text, raw_prompt = 0x61 # replicate 2000 0x20, raw_system = [],
               raw_chainedMode = None\<rparr> =
     Inr \<lparr>mode = Text, prompt = [0x61], system = [], chainedMode = False\<rparr>"
proof -
  have "trim (0x61 # replicate 2000 (0x20 :: 16 word)) = [0x61]"
    by (rule trim_padded) (simp_all add: is_white_space_def)
  moreover have "trim ([] :: ustring) = []"
    by (simp add: trim_def)
  ultimately show ?thesis
    by (simp add: formSchema_def run_checks_prompt run_checks_system)
qed

section \<open>The request\<close>

lemma quote_prompt_key: "QuoteJSONString (ascii ''prompt'') = ascii ''\"prompt\"''"
  by (simp add: QuoteJSONString_def ascii_def is_leading_surrogate_def is_trailing_surrogate_def)

lemma quote_system_key: "QuoteJSONString (ascii ''system'') = ascii ''\"system\"''"
  by (simp add: QuoteJSONString_def ascii_def is_leading_surrogate_def is_trailing_surrogate_def)

lemma ascii_append: "ascii (xs @ ys) = ascii xs @ ascii ys"
  by (simp add: ascii_def)

lemma ascii_append_left: "ascii xs @ ascii ys @ zs = ascii (xs @ ys) @ zs"
  by (simp add: ascii_def)

lemma stringify_prompt_system:
  "stringify (JObj [(ascii ''prompt'', JStr p), (ascii ''system'', JStr s)]) =
     ascii ''{\"prompt\":'' @ QuoteJSONString p @ ascii '',\"system\":'' @ QuoteJSONString s @ ascii ''}''"
  by (simp add: stringify_def quote_prompt_key quote_system_key Let_def)
     (simp add: ascii_def)

lemma quote_Hello: "QuoteJSONString (ascii ''Hello'') = ascii ''\"Hello\"''"
  by (simp add: QuoteJSONString_def ascii_def is_leading_surrogate_def is_trailing_surrogate_def)

lemma quote_Sys: "QuoteJSONString (ascii ''Sys'') = ascii ''\"Sys\"''"
  by (simp add: QuoteJSONString_def ascii_def is_leading_surrogate_def is_trailing_surrogate_def)

lemma decimal_500: "decimal 500 = ascii ''500''"
  by (simp add: decimal.simps ascii_def)

text \<open>
  C1. A valid submission (in image mode, one with a file selected) sends one request, and
  its URL is fixed by the mode and the chained flag: \<^verbatim>\<open>/predict/text\<close>,
  \<^verbatim>\<open>/predict/chained_text\<close>, \<^verbatim>\<open>/predict/image\<close> or \<^verbatim>\<open>/predict/chained_image\<close>.
\<close>

theorem C1_endpoint:
  assumes "mode data = Image \<longrightarrow> selectedImage w \<noteq> None"
  shows
    "(mode data = Text \<and> \<not> chainedMode data \<longrightarrow>
        map url (fetches (emitted w (onSubmit tm fetch data w))) = [ascii ''/predict/text'']) \<and>
     (mode data = Text \<and> chainedMode data \<longrightarrow>
        map url (fetches (emitted w (onSubmit tm fetch data w))) = [ascii ''/predict/chained_text'']) \<and>
     (mode data = Image \<and> \<not> chainedMode data \<longrightarrow>
        map url (fetches (emitted w (onSubmit tm fetch data w))) = [ascii ''/predict/image'']) \<and>
     (mode data = Image \<and> chainedMode data \<longrightarrow>
        map url (fetches (emitted w (onSubmit tm fetch data w))) = [ascii ''/predict/chained_image''])"
proof (cases "mode data")
  case Text
  then show ?thesis
    by (simp add: fetches_text)
next
  case Image
  with assms obtain img where "selectedImage w = Some img"
    by auto
  with Image show ?thesis
    by (simp add: fetches_image)
qed

text \<open>The four cases of C1 on concrete submissions.\<close>

theorem C1_endpoint_witness:
  "map url (fetches (emitted initial_world (onSubmit v8_message (always (Rejects NonError))
      \<lparr>mode = Text, prompt = ascii ''Hello'', system = ascii ''Sys'', chainedMode = False\<rparr>
      initial_world))) = [ascii ''/predict/text''] \<and>
   map url (fetches (emitted initial_world (onSubmit v8_message (always (Rejects NonError))
      \<lparr>mode = Text, prompt = ascii ''Hello'', system = ascii ''Sys'', chainedMode = True\<rparr>
      initial_world))) = [ascii ''/predict/chained_text''] \<and>
   map url (fetches (emitted (initial_world\<lparr>selectedImage := Some (File (ascii ''scan.png'') [0x89, 0x50])\<rparr>)
     (onSubmit v8_message (always (Rejects NonError))
      \<lparr>mode = Image, prompt = ascii ''Hello'', system = ascii ''Sys'', chainedMode = False\<rparr>
      (initial_world\<lparr>selectedImage := Some (File (ascii ''scan.png'') [0x89, 0x50])\<rparr>)))) =
     [ascii ''/predict/image''] \<and>
   map url (fetches (emitted (initial_world\<lparr>selectedImage := Some (File (ascii ''scan.png'') [0x89, 0x50])\<rparr>)
     (onSubmit v8_message (always (Rejects NonError))
      \<lparr>mode = Image, prompt = ascii ''Hello'', system = ascii ''Sys'', chainedMode = True\<rparr>
      (initial_world\<lparr>selectedImage := Some (File (ascii ''scan.png'') [0x89, 0x50])\<rparr>)))) =
     [ascii ''/predict/chained_image'']"
proof -
  let ?w = "initial_world\<lparr>selectedImage := Some (File (ascii ''scan.png'') [0x89, 0x50])\<rparr>"
  note t1 = C1_endpoint [where w = initial_world and tm = v8_message
      and fetch = "always (Rejects NonError)"
      and data = "\<lparr>mode = Text, prompt = ascii ''Hello'', system = ascii ''Sys'', chainedMode = False\<rparr>"]
  note t2 = C1_endpoint [where w = initial_world and tm = v8_message
      and fetch = "always (Rejects NonError)"
      and data = "\<lparr>mode = Text, prompt = ascii ''Hello'', system = ascii ''Sys'', chainedMode = True\<rparr>"]
  note t3 = C1_endpoint [where w = ?w and tm = v8_message
      and fetch = "always (Rejects NonError)"
      and data = "\<lparr>mode = Image, prompt = ascii ''Hello'', system = ascii ''Sys'', chainedMode = False\<rparr>"]
  note t4 = C1_endpoint [where w = ?w and tm = v8_message
      and fetch = "always (Rejects NonError)"
      and data = "\<lparr>mode = Image, prompt = ascii ''Hello'', system = ascii ''Sys'', chainedMode = True\<rparr>"]
  from t1 t2 t3 t4 show ?thesis
    by (simp add: initial_world_def)
qed

text \<open>
  C6. A submission in text mode sends one request. Its body is the JSON serialization of
  the object with the two properties \<open>prompt\<close> and \<open>system\<close>, in this order, taken from
  the form data, that is the text \<^verbatim>\<open>{"prompt":P,"system":S}\<close> with \<open>P\<close> and \<open>S\<close> the quoted
  strings; its headers are \<^verbatim>\<open>accept\<close> and \<^verbatim>\<open>Content-Type: application/json\<close>.
\<close>

theorem C6_text_request:
  assumes "mode data = Text"
  shows "fetches (emitted w (onSubmit tm fetch data w)) =
     [\<lparr>url = (if chainedMode data then ascii ''/predict/chained_text'' else ascii ''/predict/text''),
       http_method = ascii ''POST'',
       headers = [(ascii ''accept'', ascii ''application/json''),
                  (ascii ''Content-Type'', ascii ''application/json'')],
       request_body = JsonText (stringify (JObj [(ascii ''prompt'', JStr (prompt data)),
                                                 (ascii ''system'', JStr (system data))]))\<rparr>] \<and>
     stringify (JObj [(ascii ''prompt'', JStr (prompt data)), (ascii ''system'', JStr (system data))]) =
       ascii ''{\"prompt\":'' @ QuoteJSONString (prompt data) @
       ascii '',\"system\":'' @ QuoteJSONString (system data) @ ascii ''}''"
  using assms
  by (simp only: fetches_text stringify_prompt_system simp_thms)

text \<open>
  The example of C6: prompt \<^verbatim>\<open>Hello\<close> and system \<^verbatim>\<open>Sys\<close>, not chained, go to
  \<^verbatim>\<open>/predict/text\<close> with the body \<^verbatim>\<open>{"prompt":"Hello","system":"Sys"}\<close>.
\<close>

theorem C6_text_request_witness:
  "mode \<lparr>mode = Text, prompt = ascii ''Hello'', system = ascii ''Sys'', chainedMode = False\<rparr> = Text \<and>
   fetches (emitted initial_world
     (onSubmit v8_message (always (Rejects NonError))
        \<lparr>mode = Text, prompt = ascii ''Hello'', system = ascii ''Sys'', chainedMode = False\<rparr>
        initial_world)) =
     [\<lparr>url = ascii ''/predict/text'', http_method = ascii ''POST'',
       headers = [(ascii ''accept'', ascii ''application/json''),
                  (ascii ''Content-Type'', ascii ''application/json'')],
       request_body = JsonText (ascii ''{\"prompt\":\"Hello\",\"system\":\"Sys\"}'')\<rparr>]"
  using C6_text_request [of "\<lparr>mode = Text, prompt = ascii ''Hello'', system = ascii ''Sys'', chainedMode = False\<rparr>"
      initial_world v8_message "always (Rejects NonError)"]
  by (simp add: quote_Hello quote_Sys ascii_append [symmetric])

text \<open>
  C7. A submission in image mode with a file selected sends one request. Its body is a
  multipart form with exactly the fields \<open>prompt\<close> (the prompt of the form data) and
  \<open>image\<close> (the selected file); the only header the client sets is \<^verbatim>\<open>accept\<close>, so there
  is no Content-Type among them.
\<close>

theorem C7_image_request:
  assumes "mode data = Image" and "selectedImage w = Some img"
  shows "fetches (emitted w (onSubmit tm fetch data w)) =
     [\<lparr>url = (if chainedMode data then ascii ''/predict/chained_image'' else ascii ''/predict/image''),
       http_method = ascii ''POST'',
       headers = [(ascii ''accept'', ascii ''application/json'')],
       request_body = Multipart [(ascii ''prompt'', FString (prompt data)),
                                 (ascii ''image'', FFile img)]\<rparr>]"
  using assms by (rule fetches_image)

text \<open>The example of C7: image mode, chained, goes to \<^verbatim>\<open>/predict/chained_image\<close>.\<close>

theorem C7_image_request_witness:
  "fetches (emitted (initial_world\<lparr>selectedImage := Some (File (ascii ''scan.png'') [0x89, 0x50])\<rparr>)
     (onSubmit v8_message (always (Rejects NonError))
        \<lparr>mode = Image, prompt = ascii ''Hello'', system = ascii ''Sys'', chainedMode = True\<rparr>
        (initial_world\<lparr>selectedImage := Some (File (ascii ''scan.png'') [0x89, 0x50])\<rparr>))) =
     [\<lparr>url = ascii ''/predict/chained_image'', http_method = ascii ''POST'',
       headers = [(ascii ''accept'', ascii ''application/json'')],
       request_body = Multipart [(ascii ''prompt'', FString (ascii ''Hello'')),
                                 (ascii ''image'', FFile (File (ascii ''scan.png'') [0x89, 0x50]))]\<rparr>]"
  using C7_image_request [of "\<lparr>mode = Image, prompt = ascii ''Hello'', system = ascii ''Sys'', chainedMode = True\<rparr>"
      "initial_world\<lparr>selectedImage := Some (File (ascii ''scan.png'') [0x89, 0x50])\<rparr>"
      "File (ascii ''scan.png'') [0x89, 0x50]" v8_message "always (Rejects NonError)"]
  by (simp add: initial_world_def)

text \<open>
  C8. In image mode the \<open>system\<close> string has no influence: two runs of the handler on
  form data that differ in \<open>system\<close> only end in the same world, so they have emitted the
  same request and display the same response to the same answer of the network. The same
  holds for two submissions of the form whose system strings both pass the schema
  (at most 500 code units after trimming).
\<close>

theorem C8_system_ignored:
  "(mode data = Image \<longrightarrow>
      onSubmit tm fetch (data\<lparr>system := s1\<rparr>) w = onSubmit tm fetch (data\<lparr>system := s2\<rparr>) w \<and>
      fetches (emitted w (onSubmit tm fetch (data\<lparr>system := s1\<rparr>) w)) =
      fetches (emitted w (onSubmit tm fetch (data\<lparr>system := s2\<rparr>) w)) \<and>
      response (onSubmit tm fetch (data\<lparr>system := s1\<rparr>) w) =
      response (onSubmit tm fetch (data\<lparr>system := s2\<rparr>) w)) \<and>
   (raw_mode v = Image \<and> length (trim s1) \<le> 500 \<and> length (trim s2) \<le> 500 \<longrightarrow>
      handleSubmit tm fetch (v\<lparr>raw_system := s1\<rparr>) w =
      handleSubmit tm fetch (v\<lparr>raw_system := s2\<rparr>) w)"
  by (simp add: onSubmit_image_system handleSubmit_image_system)

text \<open>An instance of C8: the system strings \<^verbatim>\<open>Sys\<close> and \<^verbatim>\<open>Other\<close>.\<close>

theorem C8_system_ignored_witness:
  "onSubmit v8_message
     (always (Resolves \<lparr>status = 200, body_text = Inr [],
        body_json = Inr (JObj [(ascii ''response'', JStr (ascii ''ok''))])\<rparr>))
     \<lparr>mode = Image, prompt = ascii ''Hello'', system = ascii ''Sys'', chainedMode = False\<rparr>
     (initial_world\<lparr>selectedImage := Some (File (ascii ''scan.png'') [0x89, 0x50])\<rparr>) =
   onSubmit v8_message
     (always (Resolves \<lparr>status = 200, body_text = Inr [],
        body_json = Inr (JObj [(ascii ''response'', JStr (ascii ''ok''))])\<rparr>))
     \<lparr>mode = Image, prompt = ascii ''Hello'', system = ascii ''Other'', chainedMode = False\<rparr>
     (initial_world\<lparr>selectedImage := Some (File (ascii ''scan.png'') [0x89, 0x50])\<rparr>) \<and>
   handleSubmit v8_message (always (Rejects NonError))
     \<lparr>raw_mode = Image, raw_prompt = ascii ''Hello'', raw_system = ascii ''Sys'',
       raw_chainedMode = Some False\<rparr>
     (initial_world\<lparr>selectedImage := Some (File (ascii ''scan.png'') [0x89, 0x50])\<rparr>) =
   handleSubmit v8_message (always (Rejects NonError))
     \<lparr>raw_mode = Image, raw_prompt = ascii ''Hello'', raw_system = ascii ''Other'',
       raw_chainedMode = Some False\<rparr>
     (initial_world\<lparr>selectedImage := Some (File (ascii ''scan.png'') [0x89, 0x50])\<rparr>)"
proof -
  have tr: "trim (ascii ''Sys'') = ascii ''Sys''" "trim (ascii ''Other'') = ascii ''Other''"
    by (simp_all add: trim_def ascii_def is_white_space_def)
  have len: "length (ascii ''Sys'') \<le> 500" "length (ascii ''Other'') \<le> 500"
    by (simp_all add: ascii_def)
  note t1 = C8_system_ignored [where tm = v8_message
      and fetch = "always (Resolves \<lparr>status = 200, body_text = Inr [],
        body_json = Inr (JObj [(ascii ''response'', JStr (ascii ''ok''))])\<rparr>)"
      and data = "\<lparr>mode = Image, prompt = ascii ''Hello'', system = [], chainedMode = False\<rparr>"
      and ?s1.0 = "ascii ''Sys''" and ?s2.0 = "ascii ''Other''"
      and w = "initial_world\<lparr>selectedImage := Some (File (ascii ''scan.png'') [0x89, 0x50])\<rparr>",
      THEN conjunct1]
  note t2 = C8_system_ignored [where tm = v8_message and fetch = "always (Rejects NonError)"
      and v = "\<lparr>raw_mode = Image, raw_prompt = ascii ''Hello'', raw_system = [],
               raw_chainedMode = Some False\<rparr>"
      and ?s1.0 = "ascii ''Sys''" and ?s2.0 = "ascii ''Other''"
      and w = "initial_world\<lparr>selectedImage := Some (File (ascii ''scan.png'') [0x89, 0x50])\<rparr>",
      THEN conjunct2]
  from t1 t2 show ?thesis
    by (simp add: tr len)
qed

section \<open>The outcome\<close>

text \<open>
  C3. In image mode with no file selected the submission stops short: the \<^verbatim>\<open>try\<close> block
  completes without throwing, the only toast is the error toast asking for an image, no
  request is sent, and the handler ends with the loading flag cleared.
\<close>

theorem C3_no_image:
  assumes "mode data = Image" and "selectedImage w = None"
  shows "fst (try_block tm fetch data w) = Inr () \<and>
         emitted w (onSubmit tm fetch data w) =
           [SetIsLoading True, SetResponse [],
            Toast (ToastError (ascii ''Please select an image before submitting'')),
            SetIsLoading False, SetIsLoading False] \<and>
         fetches (emitted w (onSubmit tm fetch data w)) = [] \<and>
         toasts (emitted w (onSubmit tm fetch data w)) =
           [ToastError (ascii ''Please select an image before submitting'')] \<and>
         isLoading (onSubmit tm fetch data w) = False"
  using assms
  by (simp add: onSubmit_no_image try_block_no_image emitted_def)

text \<open>An instance of C3: the page as mounted has no image selected.\<close>

theorem C3_no_image_witness:
  "fst (try_block v8_message (always (Rejects NonError))
      \<lparr>mode = Image, prompt = ascii ''Hello'', system = ascii ''Sys'', chainedMode = False\<rparr>
      initial_world) = Inr () \<and>
   emitted initial_world (onSubmit v8_message (always (Rejects NonError))
      \<lparr>mode = Image, prompt = ascii ''Hello'', system = ascii ''Sys'', chainedMode = False\<rparr>
      initial_world) =
     [SetIsLoading True, SetResponse [],
      Toast (ToastError (ascii ''Please select an image before submitting'')),
      SetIsLoading False, SetIsLoading False]"
  using C3_no_image [where w = initial_world and tm = v8_message
      and fetch = "always (Rejects NonError)"
      and data = "\<lparr>mode = Image, prompt = ascii ''Hello'', system = ascii ''Sys'', chainedMode = False\<rparr>"]
  by (simp add: initial_world_def)

text \<open>
  C10. The first two effects of every run are the loading flag and the clearing of the
  displayed response, so the response is cleared before any toast or request; in image
  mode with no file selected the run ends with the empty response and without a request,
  whatever was displayed before.
\<close>

theorem C10_response_cleared_first:
  "take 2 (emitted w (onSubmit tm fetch data w)) = [SetIsLoading True, SetResponse []] \<and>
   (mode data = Image \<and> selectedImage w = None \<longrightarrow>
      response (onSubmit tm fetch data w) = [] \<and>
      fetches (emitted w (onSubmit tm fetch data w)) = [])"
proof (cases "mode data = Image \<and> selectedImage w = None")
  case True
  then show ?thesis
    by (simp add: onSubmit_no_image emitted_def)
next
  case False
  show ?thesis
  proof (cases "mode data")
    case Text
    from onSubmit_of_send [OF try_block_text [OF Text] refl, where tm = tm and fetch = fetch and w = w]
    show ?thesis using False by auto
  next
    case Image
    with False obtain img where "selectedImage w = Some img"
      by auto
    then have "selectedImage (setResponse [] (setIsLoading True w)) = Some img"
      by simp
    from onSubmit_of_send [OF try_block_image [OF Image this] refl, where tm = tm and fetch = fetch]
    show ?thesis using False by auto
  qed
qed

text \<open>An instance of C10: a displayed answer is erased by the rejected submission.\<close>

theorem C10_response_cleared_first_witness:
  "response (initial_world\<lparr>response := ascii ''old answer''\<rparr>) = ascii ''old answer'' \<and>
   response (onSubmit v8_message (always (Rejects NonError))
      \<lparr>mode = Image, prompt = ascii ''Hello'', system = ascii ''Sys'', chainedMode = False\<rparr>
      (initial_world\<lparr>response := ascii ''old answer''\<rparr>)) = [] \<and>
   fetches (emitted (initial_world\<lparr>response := ascii ''old answer''\<rparr>)
     (onSubmit v8_message (always (Rejects NonError))
      \<lparr>mode = Image, prompt = ascii ''Hello'', system = ascii ''Sys'', chainedMode = False\<rparr>
      (initial_world\<lparr>response := ascii ''old answer''\<rparr>))) = []"
  using C10_response_cleared_first [where tm = v8_message and fetch = "always (Rejects NonError)"
      and data = "\<lparr>mode = Image, prompt = ascii ''Hello'', system = ascii ''Sys'', chainedMode = False\<rparr>"
      and w = "initial_world\<lparr>response := ascii ''old answer''\<rparr>"]
  by (simp add: initial_world_def)

text \<open>
  C4. When the response to a valid submission has a status outside 200..299 and its body
  reads as the text \<open>b\<close>, the handler ends in the error path: the displayed string is
  \<^verbatim>\<open>Error: HTTP error! status: \<close> followed by the decimal status, \<^verbatim>\<open>, message: \<close> and
  \<open>b\<close>, and the one toast is the failure toast.
\<close>

theorem C4_http_error:
  assumes "mode data = Image \<longrightarrow> selectedImage w \<noteq> None"
    and "\<not> ok res" and "body_text res = Inr b"
  shows "response (onSubmit tm (always (Resolves res)) data w) =
           ascii ''Error: HTTP error! status: '' @ decimal (unat (status res))
           @ ascii '', message: '' @ b \<and>
         toasts (emitted w (onSubmit tm (always (Resolves res)) data w)) =
           [ToastError (ascii ''Failed to get response'')]"
proof -
  let ?w2 = "setResponse [] (setIsLoading True w)"
  from assms(1) have "mode data = Image \<longrightarrow> selectedImage ?w2 \<noteq> None"
    by simp
  from try_block_valid [OF this] obtain u bd h where
    "try_block tm (always (Resolves res)) data ?w2 = send tm (always (Resolves res)) data u bd h ?w2"
    by blast
  with send_http_error [OF assms(2,3)] obtain req where
    "try_block tm (always (Resolves res)) data ?w2 =
       (Inl (ErrorObj (ascii ''HTTP error! status: '' @ decimal (unat (status res))
                     @ ascii '', message: '' @ b)), call_fetch req ?w2)"
    by metis
  from onSubmit_thrown [OF this] show ?thesis
    by (simp add: catch_block_def finally_block_def effect_defs emitted_def Let_def ascii_append_left)
qed

text \<open>
  The example of C4: status 500 with the body \<^verbatim>\<open>server error\<close> displays
  \<^verbatim>\<open>Error: HTTP error! status: 500, message: server error\<close>.
\<close>

theorem C4_http_error_witness:
  "response (onSubmit v8_message
      (always (Resolves \<lparr>status = 500, body_text = Inr (ascii ''server error''), body_json = Inl NonError\<rparr>))
      \<lparr>mode = Text, prompt = ascii ''Hello'', system = ascii ''Sys'', chainedMode = False\<rparr>
      initial_world) =
   ascii ''Error: HTTP error! status: 500, message: server error''"
  using C4_http_error [of "\<lparr>mode = Text, prompt = ascii ''Hello'', system = ascii ''Sys'', chainedMode = False\<rparr>"
      initial_world
      "\<lparr>status = 500, body_text = Inr (ascii ''server error''), body_json = Inl NonError\<rparr>"
      "ascii ''server error''" v8_message]
  by (simp add: ok_def decimal_500 ascii_append [symmetric])

text \<open>
  C2, as the handler has it. The two fields are tested for truthiness, not for presence.
  On a response with a status in 200..299 whose body parses to \<open>result\<close>: if
  \<open>final_response\<close> is a non-empty string, it is displayed trimmed; else, if
  \<open>final_response\<close> is missing or falsy and \<open>response\<close> is a non-empty string, that
  one is displayed trimmed; and if both are missing or falsy and the payload is not
  \<^verbatim>\<open>null\<close>, the payload is displayed as \<^verbatim>\<open>JSON.stringify(result, null, 2)\<close>; in
  particular when the payload has neither key.
\<close>

theorem C2_display_priority:
  assumes "mode data = Image \<longrightarrow> selectedImage w \<noteq> None"
    and "ok res" and "body_json res = Inr result"
  shows
    "(own_property result (ascii ''final_response'') = Some (JStr s) \<and> s \<noteq> [] \<longrightarrow>
        response (onSubmit tm (always (Resolves res)) data w) = trim s) \<and>
     (\<not> truthy_opt (own_property result (ascii ''final_response'')) \<and>
      own_property result (ascii ''response'') = Some (JStr s') \<and> s' \<noteq> [] \<longrightarrow>
        response (onSubmit tm (always (Resolves res)) data w) = trim s') \<and>
     (result \<noteq> JNull \<and>
      \<not> truthy_opt (own_property result (ascii ''final_response'')) \<and>
      \<not> truthy_opt (own_property result (ascii ''response'')) \<longrightarrow>
        response (onSubmit tm (always (Resolves res)) data w) = stringify_indent2 result) \<and>
     (result \<noteq> JNull \<and>
      own_property result (ascii ''final_response'') = None \<and>
      own_property result (ascii ''response'') = None \<longrightarrow>
        response (onSubmit tm (always (Resolves res)) data w) = stringify_indent2 result)"
proof (intro conjI impI)
  assume "own_property result (ascii ''final_response'') = Some (JStr s) \<and> s \<noteq> []"
  then have "display_string tm result = Inr (trim s)"
    by (simp add: display_final_response)
  from onSubmit_success [OF assms this]
  show "response (onSubmit tm (always (Resolves res)) data w) = trim s" .
next
  assume "\<not> truthy_opt (own_property result (ascii ''final_response'')) \<and>
      own_property result (ascii ''response'') = Some (JStr s') \<and> s' \<noteq> []"
  then have "display_string tm result = Inr (trim s')"
    by (simp add: display_response_field)
  from onSubmit_success [OF assms this]
  show "response (onSubmit tm (always (Resolves res)) data w) = trim s'" .
next
  assume "result \<noteq> JNull \<and>
      \<not> truthy_opt (own_property result (ascii ''final_response'')) \<and>
      \<not> truthy_opt (own_property result (ascii ''response''))"
  then have "display_string tm result = Inr (stringify_indent2 result)"
    by (simp add: display_whole_payload)
  from onSubmit_success [OF assms this]
  show "response (onSubmit tm (always (Resolves res)) data w) = stringify_indent2 result" .
next
  assume "result \<noteq> JNull \<and>
      own_property result (ascii ''final_response'') = None \<and>
      own_property result (ascii ''response'') = None"
  then have "display_string tm result = Inr (stringify_indent2 result)"
    by (simp add: display_whole_payload)
  from onSubmit_success [OF assms this]
  show "response (onSubmit tm (always (Resolves res)) data w) = stringify_indent2 result" .
qed

text \<open>
  Instances of C2: the payload \<^verbatim>\<open>{"final_response":"Diagnosis: X"}\<close> displays
  \<^verbatim>\<open>Diagnosis: X\<close>; an empty \<open>final_response\<close> gives way to \<open>response\<close>; two falsy
  fields and a payload with neither key are printed whole.
\<close>

theorem C2_display_priority_witness:
  "response (onSubmit v8_message
     (always (Resolves \<lparr>status = 200, body_text = Inr [],
        body_json = Inr (JObj [(ascii ''final_response'', JStr (ascii ''Diagnosis: X''))])\<rparr>))
     \<lparr>mode = Text, prompt = ascii ''Hello'', system = ascii ''Sys'', chainedMode = False\<rparr>
     initial_world) = ascii ''Diagnosis: X'' \<and>
   response (onSubmit v8_message
     (always (Resolves \<lparr>status = 200, body_text = Inr [],
        body_json = Inr (JObj [(ascii ''final_response'', JStr []),
                               (ascii ''response'', JStr (ascii '' ok ''))])\<rparr>))
     \<lparr>mode = Text, prompt = ascii ''Hello'', system = ascii ''Sys'', chainedMode = False\<rparr>
     initial_world) = ascii ''ok'' \<and>
   response (onSubmit v8_message
     (always (Resolves \<lparr>status = 200, body_text = Inr [],
        body_json = Inr (JObj [(ascii ''final_response'', JNull),
                               (ascii ''response'', JBool False)])\<rparr>))
     \<lparr>mode = Text, prompt = ascii ''Hello'', system = ascii ''Sys'', chainedMode = False\<rparr>
     initial_world) =
     ascii ''{'' @ [0xA] @ ascii ''  \"final_response\": null,'' @ [0xA] @
     ascii ''  \"response\": false'' @ [0xA] @ ascii ''}'' \<and>
   response (onSubmit v8_message
     (always (Resolves \<lparr>status = 200, body_text = Inr [],
        body_json = Inr (JObj [(ascii ''answer'', JNum (ascii ''42''))])\<rparr>))
     \<lparr>mode = Text, prompt = ascii ''Hello'', system = ascii ''Sys'', chainedMode = False\<rparr>
     initial_world) =
     ascii ''{'' @ [0xA] @ ascii ''  \"answer\": 42'' @ [0xA] @ ascii ''}''"
proof -
  let ?d = "\<lparr>mode = Text, prompt = ascii ''Hello'', system = ascii ''Sys'', chainedMode = False\<rparr>"
  let ?r1 = "JObj [(ascii ''final_response'', JStr (ascii ''Diagnosis: X''))]"
  let ?r2 = "JObj [(ascii ''final_response'', JStr []), (ascii ''response'', JStr (ascii '' ok ''))]"
  let ?r3 = "JObj [(ascii ''final_response'', JNull), (ascii ''response'', JBool False)]"
  let ?r4 = "JObj [(ascii ''answer'', JNum (ascii ''42''))]"
  have neq: "ascii ''response'' \<noteq> ascii ''final_response''"
    "ascii ''answer'' \<noteq> ascii ''final_response''" "ascii ''answer'' \<noteq> ascii ''response''"
    by (simp_all add: ascii_def)
  have tr: "trim (ascii ''Diagnosis: X'') = ascii ''Diagnosis: X''" "trim (ascii '' ok '') = ascii ''ok''"
    by (simp_all add: trim_def ascii_def is_white_space_def)
  have nonempty: "ascii ''Diagnosis: X'' \<noteq> []" "ascii '' ok '' \<noteq> []"
    by (simp_all add: ascii_def)
  have s3: "stringify_indent2 ?r3 =
     ascii ''{'' @ [0xA] @ ascii ''  \"final_response\": null,'' @ [0xA] @
     ascii ''  \"response\": false'' @ [0xA] @ ascii ''}''"
    by (simp add: stringify_indent2_def QuoteJSONString_def ascii_def
          is_leading_surrogate_def is_trailing_surrogate_def)
  have s4: "stringify_indent2 ?r4 = ascii ''{'' @ [0xA] @ ascii ''  \"answer\": 42'' @ [0xA] @ ascii ''}''"
    by (simp add: stringify_indent2_def QuoteJSONString_def ascii_def
          is_leading_surrogate_def is_trailing_surrogate_def)
  note t1 = C2_display_priority [where data = ?d and w = initial_world and tm = v8_message
      and res = "\<lparr>status = 200, body_text = Inr [], body_json = Inr ?r1\<rparr>"
      and result = ?r1 and s = "ascii ''Diagnosis: X''", THEN conjunct1]
  note t2 = C2_display_priority [where data = ?d and w = initial_world and tm = v8_message
      and res = "\<lparr>status = 200, body_text = Inr [], body_json = Inr ?r2\<rparr>"
      and result = ?r2 and s' = "ascii '' ok ''", THEN conjunct2, THEN conjunct1]
  note t3 = C2_display_priority [where data = ?d and w = initial_world and tm = v8_message
      and res = "\<lparr>status = 200, body_text = Inr [], body_json = Inr ?r3\<rparr>"
      and result = ?r3, THEN conjunct2, THEN conjunct2, THEN conjunct1]
  note t4 = C2_display_priority [where data = ?d and w = initial_world and tm = v8_message
      and res = "\<lparr>status = 200, body_text = Inr [], body_json = Inr ?r4\<rparr>"
      and result = ?r4, THEN conjunct2, THEN conjunct2, THEN conjunct2]
  from t1 t2 t3 t4 show ?thesis
    by (simp add: ok_def neq neq [symmetric] tr nonempty s3 s4)
qed

text \<open>
  Against C2 as the specification words it (the field \<open>final_response\<close>, trimmed, whenever
  it is present): the payload \<^verbatim>\<open>{"final_response":""}\<close> has the field, its trimmed value
  is the empty string, and what is displayed is the whole payload, printed.
\<close>

theorem C2_empty_final_response_counterexample:
  "own_property (JObj [(ascii ''final_response'', JStr [])]) (ascii ''final_response'') = Some (JStr []) \<and>
   trim [] = [] \<and>
   response (onSubmit v8_message
     (always (Resolves \<lparr>status = 200, body_text = Inr [],
                         body_json = Inr (JObj [(ascii ''final_response'', JStr [])])\<rparr>))
     \<lparr>mode = Text, prompt = ascii ''Hello'', system = ascii ''Sys'', chainedMode = False\<rparr>
     initial_world) =
   ascii ''{'' @ [0xA] @ ascii ''  \"final_response\": \"\"'' @ [0xA] @ ascii ''}''"
proof -
  let ?r = "JObj [(ascii ''final_response'', JStr [])]"
  have neq: "ascii ''response'' \<noteq> ascii ''final_response''"
    by (simp add: ascii_def)
  have "display_string v8_message ?r = Inr (stringify_indent2 ?r)"
    by (rule display_whole_payload) (simp_all add: neq)
  moreover have "stringify_indent2 ?r =
      ascii ''{'' @ [0xA] @ ascii ''  \"final_response\": \"\"'' @ [0xA] @ ascii ''}''"
    by (simp add: stringify_indent2_def QuoteJSONString_def ascii_def
          is_leading_surrogate_def is_trailing_surrogate_def)
  ultimately have "response (onSubmit v8_message
     (always (Resolves \<lparr>status = 200, body_text = Inr [], body_json = Inr ?r\<rparr>))
     \<lparr>mode = Text, prompt = ascii ''Hello'', system = ascii ''Sys'', chainedMode = False\<rparr>
     initial_world) =
     ascii ''{'' @ [0xA] @ ascii ''  \"final_response\": \"\"'' @ [0xA] @ ascii ''}''"
    by (intro onSubmit_success) (simp_all add: ok_def)
  then show ?thesis
    by (simp add: trim_def)
qed

text \<open>
  C9. Whatever the form data, the state and the network do (success, HTTP failure, a
  thrown value, or the missing image), the loading flag is false when the handler ends
  and the handler has emitted exactly one toast, a success or an error toast.
\<close>

theorem C9_loading_cleared_one_toast:
  "isLoading (onSubmit tm fetch data w) = False \<and>
   length (toasts (emitted w (onSubmit tm fetch data w))) = 1"
proof (cases "mode data = Image \<and> selectedImage w = None")
  case True
  then show ?thesis
    by (simp add: onSubmit_no_image emitted_def)
next
  case False
  have fin: "isLoading (onSubmit tm fetch data w) = False"
    by (simp add: onSubmit_def finally_block_def setIsLoading_def Let_def split: prod.split sum.split)
  show ?thesis
  proof (cases "mode data")
    case Text
    from onSubmit_of_send [OF try_block_text [OF Text] refl, where tm = tm and fetch = fetch and w = w]
    show ?thesis using fin by auto
  next
    case Image
    with False obtain img where "selectedImage w = Some img"
      by auto
    then have "selectedImage (setResponse [] (setIsLoading True w)) = Some img"
      by simp
    from onSubmit_of_send [OF try_block_image [OF Image this] refl, where tm = tm and fetch = fetch]
    show ?thesis using fin by auto
  qed
qed

end
